theory Spec2Isabelle
  imports Main
begin

section \<open>Membership numbers\<close>

subsection \<open>String primitives of the two hosts\<close>

text \<open>
  JavaScript's \<open>String(n)\<close> and PostgreSQL's \<open>n::TEXT\<close> agree on a positive integer: the
  decimal digits, most significant first, without a leading zero. Row counts are exact
  JavaScript numbers (they stay far below \<open>2^53\<close>), so \<open>nat\<close> stands for them.
\<close>

definition digit_char :: "nat \<Rightarrow> char" where
  "digit_char d = ''0123456789'' ! (d mod 10)"

fun String_nat :: "nat \<Rightarrow> string" where
  "String_nat n =
     (if n < 10 then [digit_char n] else String_nat (n div 10) @ [digit_char (n mod 10)])"

declare String_nat.simps [simp del]

text \<open>
  \<open>String.prototype.padStart(targetLength, padString)\<close>: the receiver is returned as it
  is when it is already long enough or the filler is empty; otherwise the filler is
  repeated, cut to the missing length and put in front.
\<close>

definition padStart :: "string \<Rightarrow> nat \<Rightarrow> string \<Rightarrow> string" where
  "padStart s targetLength padString =
     (if targetLength \<le> length s then s
      else if padString = [] then s
      else (let fillLen = targetLength - length s
            in take fillLen (concat (replicate fillLen padString)) @ s))"

text \<open>
  PostgreSQL's \<open>LPAD(string, length, fill)\<close>: a string that is already longer than
  \<open>length\<close> is truncated on the right; otherwise the filler is repeated in front.
\<close>

definition LPAD :: "string \<Rightarrow> nat \<Rightarrow> string \<Rightarrow> string" where
  "LPAD s len fill =
     (if len \<le> length s then take len s
      else if fill = [] then s
      else take (len - length s) (concat (replicate (len - length s) fill)) @ s)"

subsection \<open>The generator of the Add Membership page\<close>

text \<open>
  \<open>generateMembershipNumber\<close> reads the exact row count of the memberships table
  (\<open>totalCount\<close>, which is \<open>null\<close> when the count query fails) and returns
  \<^verbatim>\<open>`MEM${String((totalCount || 0) + 1).padStart(6, '0')}`\<close>.
  Its first query (the newest row, into the local \<open>count\<close>) is never used.
\<close>

definition or_zero :: "nat option \<Rightarrow> nat" where
  "or_zero totalCount = (case totalCount of None \<Rightarrow> 0 | Some c \<Rightarrow> if c = 0 then 0 else c)"

definition generateMembershipNumber :: "nat option \<Rightarrow> string" where
  "generateMembershipNumber totalCount =
     ''MEM'' @ padStart (String_nat (or_zero totalCount + 1)) 6 ''0''"

subsection \<open>The generator of the database migration\<close>

datatype sql_error = integer_out_of_range | unique_violation | not_null_violation

text \<open>
  \<open>generate_membership_number()\<close> selects the row count plus one into \<open>counter INT\<close>, a 32-bit
  signed variable, and returns \<open>'MEM' || LPAD(counter::TEXT, 6, '0')\<close>. The argument
  stands for the row count of the memberships table.
\<close>

definition generate_membership_number :: "nat \<Rightarrow> sql_error + string" where
  "generate_membership_number row_count =
     (let counter = row_count + 1
      in if 2147483647 < counter then Inl integer_out_of_range
         else Inr (''MEM'' @ LPAD (String_nat counter) 6 ''0''))"

subsection \<open>The format in the words of the specification\<close>

text \<open>
  "\<open>MEM\<close> concatenated with the number left-padded with zeros to 6 digits": zeros are
  added on the left until there are six digits; nothing is removed.
\<close>

definition zero_pad :: "nat \<Rightarrow> nat \<Rightarrow> string" where
  "zero_pad k width = replicate (width - length (String_nat k)) CHR ''0'' @ String_nat k"

definition nextMembershipNumber_spec :: "nat \<Rightarrow> string" where
  "nextMembershipNumber_spec n = ''MEM'' @ zero_pad (n + 1) 6"

text \<open>Reading a digit string back as a number.\<close>

definition digit_value :: "char \<Rightarrow> nat" where
  "digit_value c = of_char c - 48"

definition decimal_value :: "string \<Rightarrow> nat" where
  "decimal_value ds = foldl (\<lambda>acc c. 10 * acc + digit_value c) 0 ds"

section \<open>Role assignment at sign-up\<close>

datatype app_role = admin | user

record profile =
  profile_id :: string
  full_name :: string
  profile_email :: string

record user_role =
  user_id :: string
  role :: app_role

text \<open>
  The row of \<open>auth.users\<close> that fires the trigger: its id, its email and the
  \<open>full_name\<close> entry of \<open>raw_user_meta_data\<close> (either may be NULL).
\<close>

record auth_user =
  new_id :: string
  new_email :: "string option"
  new_meta_full_name :: "string option"

record database =
  profiles :: "profile list"
  user_roles :: "user_role list"

text \<open>
  The branch of \<open>handle_new_user\<close> on whether the row count of \<open>public.user_roles\<close>
  is 0, as a function of that count.
\<close>

definition assignRole :: "nat \<Rightarrow> app_role" where
  "assignRole role_count = (if role_count = 0 then admin else user)"

definition COALESCE :: "'a option \<Rightarrow> 'a option \<Rightarrow> 'a option" where
  "COALESCE a b = (case a of Some x \<Rightarrow> Some x | None \<Rightarrow> b)"

text \<open>
  \<open>handle_new_user\<close> inserts the profile (primary key \<open>id\<close>, both text columns
  \<open>NOT NULL\<close>) and then one role row (\<open>UNIQUE (user_id, role)\<close>). A violated
  constraint aborts the trigger, and with it the sign-up. The generated key and the
  defaulted timestamp of the two tables play no part and are left out of the rows.
\<close>

definition handle_new_user :: "database \<Rightarrow> auth_user \<Rightarrow> sql_error + database" where
  "handle_new_user db NEW =
     (case (COALESCE (new_meta_full_name NEW) (new_email NEW), new_email NEW) of
        (Some name, Some mail) \<Rightarrow>
          if \<exists>p \<in> set (profiles db). profile_id p = new_id NEW then Inl unique_violation
          else
            (let db1 = db\<lparr>profiles := profiles db @
                         [\<lparr>profile_id = new_id NEW, full_name = name, profile_email = mail\<rparr>]\<rparr>;
                 new_row = \<lparr>user_id = new_id NEW, role = assignRole (length (user_roles db1))\<rparr>
             in if new_row \<in> set (user_roles db1) then Inl unique_violation
                else Inr (db1\<lparr>user_roles := user_roles db1 @ [new_row]\<rparr>))
      | _ \<Rightarrow> Inl not_null_violation)"

text \<open>
  The trigger \<open>on_auth_user_created\<close> runs \<open>handle_new_user\<close> once for each row
  inserted into \<open>auth.users\<close>. A sign-up that the trigger aborts leaves the tables as
  they were, and later sign-ups go on from there.
\<close>

fun on_auth_user_created :: "database \<Rightarrow> auth_user list \<Rightarrow> database" where
  "on_auth_user_created db [] = db"
| "on_auth_user_created db (NEW # later) =
     (case handle_new_user db NEW of
        Inl e \<Rightarrow> on_auth_user_created db later
      | Inr db' \<Rightarrow> on_auth_user_created db' later)"

text \<open>The first role row, if any, is \<open>admin\<close> and every later one is \<open>user\<close>.\<close>

definition first_admin_only :: "database \<Rightarrow> bool" where
  "first_admin_only db =
     (map role (user_roles db)
      = (case user_roles db of [] \<Rightarrow> [] | first # later \<Rightarrow> admin # replicate (length later) user))"

section \<open>Calendar dates\<close>

text \<open>
  The \<open>DATE\<close> columns travel as \<open>yyyy-MM-dd\<close> strings; \<open>parseISO\<close> reads such a string
  as a local calendar day and \<open>format(_, 'yyyy-MM-dd')\<close> writes one back. A date value
  stands for the string and for the day it denotes (months and days count from 1).
\<close>

record date =
  year :: int
  month :: int
  day :: int

definition is_leap_year :: "int \<Rightarrow> bool" where
  "is_leap_year y = (y mod 4 = 0 \<and> (y mod 100 \<noteq> 0 \<or> y mod 400 = 0))"

definition days_in_month :: "int \<Rightarrow> int \<Rightarrow> int" where
  "days_in_month y m =
     (if m = 2 then (if is_leap_year y then 29 else 28)
      else if m = 4 \<or> m = 6 \<or> m = 9 \<or> m = 11 then 30
      else 31)"

definition valid_date :: "date \<Rightarrow> bool" where
  "valid_date d =
     (1 \<le> month d \<and> month d \<le> 12 \<and> 1 \<le> day d \<and> day d \<le> days_in_month (year d) (month d))"

definition date_less :: "date \<Rightarrow> date \<Rightarrow> bool" where
  "date_less a b =
     (year a < year b \<or>
      (year a = year b \<and> (month a < month b \<or> (month a = month b \<and> day a < day b))))"


text \<open>
  Modelled from the spec: \<open>addMonths\<close> and \<open>addYears\<close> belong to the date-fns package,
  whose code is not part of the sources. The specification asks for calendar-aware
  month arithmetic that lands on the last valid day of the target month when the day of
  the month does not exist there. The definition follows the library's steps: leave the
  date alone for an amount of zero; otherwise move to the last day of the desired month
  (month overflow carried into the year) and keep the original day of the month unless
  it is not before that last day. \<open>addYears\<close> adds twelve times as many months.
\<close>

definition addMonths :: "date \<Rightarrow> int \<Rightarrow> date" where
  "addMonths d amount =
     (if amount = 0 then d
      else
        (let dayOfMonth = day d;
             months = year d * 12 + (month d - 1) + amount;
             y = months div 12;
             m = months mod 12 + 1;
             endOfDesiredMonth = \<lparr>year = y, month = m, day = days_in_month y m\<rparr>;
             daysInMonth = day endOfDesiredMonth
         in if dayOfMonth \<ge> daysInMonth then endOfDesiredMonth
            else \<lparr>year = y, month = m, day = dayOfMonth\<rparr>))"

definition addYears :: "date \<Rightarrow> int \<Rightarrow> date" where
  "addYears d amount = addMonths d (amount * 12)"

subsection \<open>The two end-date calculators\<close>

text \<open>
  \<open>calculateNewEndDate\<close> of the Update Membership page: a \<open>switch\<close> on the extension
  tag whose \<open>default\<close> branch returns the current end date.
\<close>

definition calculateNewEndDate :: "date \<Rightarrow> string \<Rightarrow> date" where
  "calculateNewEndDate currentEndDate extension =
     (let endDate = currentEndDate
      in if extension = ''6_months'' then addMonths endDate 6
         else if extension = ''1_year'' then addYears endDate 1
         else if extension = ''2_years'' then addYears endDate 2
         else currentEndDate)"

text \<open>
  \<open>calculateEndDate\<close> of the Add Membership page starts from \<open>new Date()\<close>, here the
  argument \<open>today\<close>. Its \<open>switch\<close> has no \<open>default\<close>: for any other tag the function
  falls off its end and yields \<open>undefined\<close>, here \<open>None\<close>.
\<close>

definition calculateEndDate :: "date \<Rightarrow> string \<Rightarrow> date option" where
  "calculateEndDate today duration =
     (let startDate = today
      in if duration = ''6_months'' then Some (addMonths startDate 6)
         else if duration = ''1_year'' then Some (addYears startDate 1)
         else if duration = ''2_years'' then Some (addYears startDate 2)
         else None)"

section \<open>The memberships table\<close>

datatype membership_duration = M6_months | M1_year | M2_years

datatype membership_status = active | cancelled | expired

type_synonym timestamp = string

record MembershipData =
  id_col :: string
  membership_number :: string
  member_name :: string
  email :: string
  phone :: string
  address :: string
  duration :: membership_duration
  status :: membership_status
  start_date :: date
  end_date :: date
  created_by :: "string option"
  created_at :: timestamp
  updated_at :: timestamp

text \<open>
  What the outside world supplies to one handler run: the browser's \<open>new Date()\<close>, as
  a local calendar day and as its \<open>toISOString()\<close>, and the database's \<open>CURRENT_DATE\<close>
  and \<open>NOW()\<close>.
\<close>

record clock =
  browser_today :: date
  browser_now :: timestamp
  db_current_date :: date
  db_now :: timestamp

datatype toast =
    validation_failed
  | membership_created string
  | create_failed string
  | membership_cancelled
  | membership_extended date
  | update_failed string

section \<open>The Update Membership page\<close>

text \<open>\<open>.update(patch).eq('id', i)\<close>: the patch is applied to every row with that id.\<close>

definition update_eq_id :: "(MembershipData \<Rightarrow> MembershipData) \<Rightarrow> string \<Rightarrow>
    MembershipData list \<Rightarrow> MembershipData list" where
  "update_eq_id patch i rows = map (\<lambda>row. if id_col row = i then patch row else row) rows"

text \<open>
  \<open>.select('*').eq('id', i).single()\<close>: the row when exactly one row has the id, no data
  otherwise.
\<close>

definition select_single :: "string \<Rightarrow> MembershipData list \<Rightarrow> MembershipData option" where
  "select_single i rows =
     (case filter (\<lambda>row. id_col row = i) rows of [row] \<Rightarrow> Some row | _ \<Rightarrow> None)"

definition message_or :: "string \<Rightarrow> string \<Rightarrow> string" where
  "message_or msg fallback = (if msg = [] then fallback else msg)"

text \<open>
  \<open>handleUpdate\<close> works on the page's copy of a membership (\<open>membership\<close>, \<open>None\<close>
  before a search) and on the selected \<open>action\<close>. \<open>update_error\<close> is the error the
  database reports for the update, if any; it is thrown and ends in the error toast,
  with nothing written. The result is the table, the page's copy after the refresh
  and the toast shown.
\<close>

definition handleUpdate :: "clock \<Rightarrow> string option \<Rightarrow> MembershipData list \<Rightarrow>
    MembershipData option \<Rightarrow> string \<Rightarrow>
    MembershipData list \<times> MembershipData option \<times> toast option" where
  "handleUpdate clk update_error rows membership action =
     (case membership of
        None \<Rightarrow> (rows, None, None)
      | Some m \<Rightarrow>
          if action = ''cancel'' then
            (case update_error of
               Some msg \<Rightarrow>
                 (rows, Some m, Some (update_failed (message_or msg ''Failed to update membership'')))
             | None \<Rightarrow>
                 (let rows' = update_eq_id
                        (\<lambda>row. row\<lparr>status := cancelled, updated_at := browser_now clk\<rparr>)
                        (id_col m) rows
                  in (rows',
                      (case select_single (id_col m) rows' of Some data \<Rightarrow> Some data
                                                             | None \<Rightarrow> Some m),
                      Some membership_cancelled)))
          else
            (let newEndDate = calculateNewEndDate (end_date m) action
             in case update_error of
                  Some msg \<Rightarrow>
                    (rows, Some m,
                     Some (update_failed (message_or msg ''Failed to update membership'')))
                | None \<Rightarrow>
                    (let rows' = update_eq_id
                           (\<lambda>row. row\<lparr>end_date := newEndDate, status := active,
                                        updated_at := browser_now clk\<rparr>)
                           (id_col m) rows
                     in (rows',
                         (case select_single (id_col m) rows' of Some data \<Rightarrow> Some data
                                                                | None \<Rightarrow> Some m),
                         Some (membership_extended newEndDate)))))"

section \<open>The Add Membership page\<close>

record form_data =
  form_memberName :: string
  form_email :: string
  form_phone :: string
  form_address :: string
  form_duration :: string

definition duration_enum :: "string \<Rightarrow> membership_duration option" where
  "duration_enum tag =
     (if tag = ''6_months'' then Some M6_months
      else if tag = ''1_year'' then Some M1_year
      else if tag = ''2_years'' then Some M2_years
      else None)"

text \<open>
  \<open>membershipSchema.safeParse(formData).success\<close>. The e-mail pattern of the validation
  library is the parameter \<open>email_ok\<close>.
\<close>

definition membershipSchema :: "(string \<Rightarrow> bool) \<Rightarrow> form_data \<Rightarrow> bool" where
  "membershipSchema email_ok formData =
     (2 \<le> length (form_memberName formData) \<and> length (form_memberName formData) \<le> 100 \<and>
      email_ok (form_email formData) \<and>
      10 \<le> length (form_phone formData) \<and> length (form_phone formData) \<le> 15 \<and>
      5 \<le> length (form_address formData) \<and> length (form_address formData) \<le> 200 \<and>
      duration_enum (form_duration formData) \<noteq> None)"

text \<open>
  \<open>handleSubmit\<close> validates the form, derives the number from the exact row count and
  the end date from the browser's clock, and inserts one row. The database fills in
  the id (\<open>fresh_id\<close>), the status \<open>active\<close>, the start date \<open>CURRENT_DATE\<close> and both
  timestamps; it rejects a repeated id or membership number and a missing end date.
  \<open>uid\<close> is the signed-in user's id.
\<close>

definition handleSubmit :: "clock \<Rightarrow> (string \<Rightarrow> bool) \<Rightarrow> string \<Rightarrow> string option \<Rightarrow>
    MembershipData list \<Rightarrow> form_data \<Rightarrow> MembershipData list \<times> toast" where
  "handleSubmit clk email_ok fresh_id uid rows formData =
     (if \<not> membershipSchema email_ok formData then (rows, validation_failed)
      else
        (let membershipNumber = generateMembershipNumber (Some (length rows));
             endDate = calculateEndDate (browser_today clk) (form_duration formData)
         in case (endDate, duration_enum (form_duration formData)) of
              (Some e, Some dur) \<Rightarrow>
                if (\<exists>row \<in> set rows. id_col row = fresh_id \<or> membership_number row = membershipNumber)
                then (rows, create_failed
                        ''duplicate key value violates unique constraint'')
                else
                  (rows @
                     [\<lparr>id_col = fresh_id, membership_number = membershipNumber,
                       member_name = form_memberName formData, email = form_email formData,
                       phone = form_phone formData, address = form_address formData,
                       duration = dur, status = active,
                       start_date = db_current_date clk, end_date = e,
                       created_by = uid, created_at = db_now clk, updated_at = db_now clk\<rparr>],
                   membership_created membershipNumber)
            | _ \<Rightarrow> (rows, create_failed ''null value violates not-null constraint'')))"


section \<open>Auxiliary notions for the proofs\<close>

text \<open>The number of months since year 0, which \<open>addMonths\<close> advances by the amount.\<close>

definition month_index :: "date \<Rightarrow> int" where
  "month_index d = year d * 12 + (month d - 1)"

text \<open>The patch that the extension branch of \<open>handleUpdate\<close> sends to the table.\<close>

definition extend_patch :: "clock \<Rightarrow> MembershipData \<Rightarrow> string \<Rightarrow> MembershipData \<Rightarrow> MembershipData" where
  "extend_patch clk m action =
     (\<lambda>row. row\<lparr>end_date := calculateNewEndDate (end_date m) action, status := active,
         updated_at := browser_now clk\<rparr>)"

text \<open>Sample data for the concrete runs below.\<close>

definition example_clock :: clock where
  "example_clock =
     \<lparr>browser_today = \<lparr>year = 2024, month = 6, day = 15\<rparr>,
      browser_now = ''2024-06-15T10:00:00.000Z'',
      db_current_date = \<lparr>year = 2024, month = 6, day = 15\<rparr>,
      db_now = ''2024-06-15 10:00:00+00''\<rparr>"

definition example_member :: "membership_status \<Rightarrow> MembershipData" where
  "example_member s =
     \<lparr>id_col = ''7f1c'', membership_number = ''MEM000001'', member_name = ''Ann Lee'',
      email = ''ann@example.org'', phone = ''0123456789'', address = ''1 Main Street'',
      duration = M1_year, status = s,
      start_date = \<lparr>year = 2019, month = 1, day = 31\<rparr>,
      end_date = \<lparr>year = 2020, month = 1, day = 31\<rparr>,
      created_by = None, created_at = ''2019-01-31 09:00:00+00'',
      updated_at = ''2019-01-31 09:00:00+00''\<rparr>"


definition example_form :: form_data where
  "example_form =
     \<lparr>form_memberName = ''Ann Lee'', form_email = ''ann@example.org'',
      form_phone = ''0123456789'', form_address = ''1 Main Street'',
      form_duration = ''6_months''\<rparr>"

definition example_user :: "string \<Rightarrow> auth_user" where
  "example_user i =
     \<lparr>new_id = i, new_email = Some (i @ ''@example.org''), new_meta_full_name = None\<rparr>"

definition empty_database :: database where
  "empty_database = \<lparr>profiles = [], user_roles = []\<rparr>"

section \<open>Lemmas about the string primitives\<close>

lemma concat_replicate_single: "concat (replicate k [c]) = replicate k c"
  by (induction k) simp_all

lemma padStart_zero: "padStart s w ''0'' = replicate (w - length s) CHR ''0'' @ s"
  by (simp add: padStart_def concat_replicate_single Let_def)

lemma digit_value_digit_char: "d < 10 \<Longrightarrow> digit_value (digit_char d) = d"
proof -
  assume "d < 10"
  then have "d \<in> {0,1,2,3,4,5,6,7,8,9}" by auto
  then show ?thesis
    by (auto simp: digit_value_def digit_char_def)
qed

lemma decimal_value_snoc: "decimal_value (ds @ [c]) = 10 * decimal_value ds + digit_value c"
  by (simp add: decimal_value_def)

lemma decimal_value_String_nat: "decimal_value (String_nat n) = n"
proof (induction n rule: String_nat.induct)
  case (1 n)
  show ?case
  proof (cases "n < 10")
    case True
    then show ?thesis
      by (subst String_nat.simps) (simp add: decimal_value_def digit_value_digit_char)
  next
    case False
    then show ?thesis
      using 1 by (subst String_nat.simps) (simp add: decimal_value_snoc digit_value_digit_char)
  qed
qed

lemma length_String_nat_pos: "0 < length (String_nat n)"
  by (subst String_nat.simps) simp

lemma length_String_nat_le: "n < 10 ^ k \<Longrightarrow> 0 < k \<Longrightarrow> length (String_nat n) \<le> k"
proof (induction n arbitrary: k rule: String_nat.induct)
  case (1 n)
  show ?case
  proof (cases "n < 10")
    case True
    then show ?thesis using 1(3) by (subst String_nat.simps) simp
  next
    case False
    then obtain j where k: "k = Suc j" using 1(3) by (cases k) auto
    with False 1(2) have j: "0 < j" by (cases j) auto
    from 1(2) k have "n div 10 < 10 ^ j" by (simp add: less_mult_imp_div_less mult.commute)
    with 1(1)[OF False _ j] have "length (String_nat (n div 10)) \<le> j" by simp
    then show ?thesis using False k by (subst String_nat.simps) simp
  qed
qed

lemma length_String_nat_gt: "10 ^ k \<le> n \<Longrightarrow> k < length (String_nat n)"
proof (induction n arbitrary: k rule: String_nat.induct)
  case (1 n)
  show ?case
  proof (cases "n < 10")
    case True
    have "k = 0"
    proof (cases k)
      case (Suc j)
      have "1 \<le> (10::nat) ^ j" by simp
      then have "10 \<le> (10::nat) ^ k" using Suc by simp
      with True 1(2) show ?thesis by simp
    qed simp
    then show ?thesis using length_String_nat_pos[of n] by simp
  next
    case False
    show ?thesis
    proof (cases k)
      case 0
      then show ?thesis using length_String_nat_pos[of n] by simp
    next
      case (Suc j)
      with 1(2) have "10 ^ j \<le> n div 10" by (simp add: less_eq_div_iff_mult_less_eq mult.commute)
      with 1(1)[OF False] have "j < length (String_nat (n div 10))" by simp
      then show ?thesis using False Suc by (subst String_nat.simps) simp
    qed
  qed
qed

lemma replicate_unfold_numeral: "replicate (numeral n) c = c # replicate (numeral n - 1) c"
  by (simp add: numeral_eq_Suc)

lemmas mem_eval = generateMembershipNumber_def generate_membership_number_def or_zero_def
  padStart_def LPAD_def String_nat.simps digit_char_def Let_def replicate_unfold_numeral

lemma decimal_value_leading_zero: "decimal_value (CHR ''0'' # ds) = decimal_value ds"
  by (simp add: decimal_value_def digit_value_def)

lemma decimal_value_leading_zeros: "decimal_value (replicate k CHR ''0'' @ ds) = decimal_value ds"
  by (induction k) (simp_all add: decimal_value_leading_zero)

lemma generateMembershipNumber_Some:
  "generateMembershipNumber (Some n) = ''MEM'' @ padStart (String_nat (n + 1)) 6 ''0''"
  by (simp add: generateMembershipNumber_def or_zero_def)

lemma generators_agree_below:
  assumes "n + 1 \<le> 999999"
  shows "generate_membership_number n = Inr (generateMembershipNumber (Some n))"
proof -
  have "n + 1 < 10 ^ 6" using assms by simp
  then have len: "length (String_nat (n + 1)) \<le> 6"
    by (rule length_String_nat_le) simp
  have "LPAD (String_nat (n + 1)) 6 ''0'' = padStart (String_nat (n + 1)) 6 ''0''"
  proof (cases "length (String_nat (n + 1)) = 6")
    case True
    then show ?thesis by (simp add: LPAD_def padStart_def)
  next
    case False
    with len have "length (String_nat (n + 1)) < 6" by simp
    then show ?thesis by (simp add: LPAD_def padStart_def Let_def)
  qed
  then show ?thesis
    using assms by (simp add: generate_membership_number_def generateMembershipNumber_Some Let_def)
qed

lemma generators_diverge_above:
  assumes "999999 < n + 1"
  shows "generate_membership_number n \<noteq> Inr (generateMembershipNumber (Some n))"
    and "generateMembershipNumber (Some n) = ''MEM'' @ String_nat (n + 1)"
    and "n + 1 \<le> 2147483647 \<Longrightarrow>
         generate_membership_number n = Inr (''MEM'' @ take 6 (String_nat (n + 1)))"
proof -
  have "10 ^ 6 \<le> n + 1" using assms by simp
  then have len: "6 < length (String_nat (n + 1))"
    by (rule length_String_nat_gt)
  show ts: "generateMembershipNumber (Some n) = ''MEM'' @ String_nat (n + 1)"
    using len by (simp add: generateMembershipNumber_Some padStart_def)
  show sql: "generate_membership_number n = Inr (''MEM'' @ take 6 (String_nat (n + 1)))"
    if "n + 1 \<le> 2147483647"
    using that len by (simp add: generate_membership_number_def LPAD_def Let_def)
  show "generate_membership_number n \<noteq> Inr (generateMembershipNumber (Some n))"
  proof (cases "n + 1 \<le> 2147483647")
    case True
    have "length (''MEM'' @ take 6 (String_nat (n + 1))) \<noteq> length (''MEM'' @ String_nat (n + 1))"
      using len by simp
    then have "''MEM'' @ take 6 (String_nat (n + 1)) \<noteq> ''MEM'' @ String_nat (n + 1)"
      by metis
    then show ?thesis using sql[OF True] ts by simp
  next
    case False
    then show ?thesis by (simp add: generate_membership_number_def Let_def)
  qed
qed

section \<open>Lemmas about the calendar\<close>

lemma days_in_month_ge: "28 \<le> days_in_month y m"
  by (simp add: days_in_month_def)

lemma addMonths_fields:
  "amount \<noteq> 0 \<Longrightarrow>
   year (addMonths d amount) = (month_index d + amount) div 12 \<and>
   month (addMonths d amount) = (month_index d + amount) mod 12 + 1 \<and>
   day (addMonths d amount) =
     min (day d) (days_in_month ((month_index d + amount) div 12) ((month_index d + amount) mod 12 + 1))"
  by (simp add: addMonths_def month_index_def Let_def)

lemma addMonths_month_range:
  "amount \<noteq> 0 \<Longrightarrow> 1 \<le> month (addMonths d amount) \<and> month (addMonths d amount) \<le> 12"
  using addMonths_fields[of amount d] by simp

lemma addMonths_month_index:
  "amount \<noteq> 0 \<Longrightarrow> month_index (addMonths d amount) = month_index d + amount"
proof -
  assume nz: "amount \<noteq> 0"
  have "month_index (addMonths d amount)
        = (month_index d + amount) div 12 * 12 + (month_index d + amount) mod 12"
    using addMonths_fields[OF nz, of d] by (simp add: month_index_def[of "addMonths d amount"])
  then show ?thesis by simp
qed

lemma month_index_less:
  assumes "1 \<le> month a" "month a \<le> 12" "1 \<le> month b" "month b \<le> 12"
    and "month_index a < month_index b"
  shows "date_less a b"
  using assms unfolding date_less_def month_index_def by arith

lemma addMonths_valid: "valid_date d \<Longrightarrow> valid_date (addMonths d amount)"
proof (cases "amount = 0")
  case True
  assume "valid_date d"
  with True show ?thesis by (simp add: addMonths_def)
next
  case False
  assume v: "valid_date d"
  have "1 \<le> min (day d) (days_in_month y m)" for y m
    using v days_in_month_ge[of y m] by (simp add: valid_date_def)
  then show ?thesis
    using addMonths_fields[OF False, of d] by (simp add: valid_date_def)
qed


lemma addMonths_mono:
  assumes "j \<noteq> 0" "k \<noteq> 0" "j < k"
  shows "date_less (addMonths d j) (addMonths d k)"
proof (rule month_index_less)
  show "1 \<le> month (addMonths d j)" "month (addMonths d j) \<le> 12"
    using addMonths_month_range[OF assms(1)] by simp_all
  show "1 \<le> month (addMonths d k)" "month (addMonths d k) \<le> 12"
    using addMonths_month_range[OF assms(2)] by simp_all
  show "month_index (addMonths d j) < month_index (addMonths d k)"
    using assms by (simp add: addMonths_month_index)
qed

lemma calculateNewEndDate_valid: "valid_date d \<Longrightarrow> valid_date (calculateNewEndDate d ext)"
  by (simp add: calculateNewEndDate_def addYears_def addMonths_valid Let_def)




lemmas date_eval = calculateNewEndDate_def calculateEndDate_def addYears_def addMonths_def
  days_in_month_def is_leap_year_def Let_def

section \<open>Lemmas about the Update Membership page\<close>

lemma filter_update_eq_id:
  assumes "\<And>row. id_col (patch row) = id_col row"
  shows "filter (\<lambda>row. id_col row = i) (update_eq_id patch i rows)
         = map patch (filter (\<lambda>row. id_col row = i) rows)"
  using assms by (induction rows) (simp_all add: update_eq_id_def)

lemma select_single_updated:
  assumes "\<And>row. id_col (patch row) = id_col row"
    and "filter (\<lambda>row. id_col row = i) rows = [m]"
  shows "select_single i (update_eq_id patch i rows) = Some (patch m)"
  using assms by (simp add: select_single_def filter_update_eq_id)


lemma handleUpdate_extend_rows:
  "action \<noteq> ''cancel'' \<Longrightarrow>
   fst (handleUpdate clk None rows (Some m) action)
     = update_eq_id (extend_patch clk m action) (id_col m) rows"
  by (simp add: handleUpdate_def Let_def extend_patch_def)

lemma handleUpdate_extend:
  assumes "action \<noteq> ''cancel''"
    and "filter (\<lambda>row. id_col row = id_col m) rows = [m]"
  shows "handleUpdate clk None rows (Some m) action
         = (update_eq_id (extend_patch clk m action) (id_col m) rows,
            Some (extend_patch clk m action m),
            Some (membership_extended (calculateNewEndDate (end_date m) action)))"
proof -
  have "select_single (id_col m) (update_eq_id (extend_patch clk m action) (id_col m) rows)
        = Some (extend_patch clk m action m)"
    by (rule select_single_updated) (simp_all add: extend_patch_def assms(2))
  then show ?thesis
    using assms(1) unfolding extend_patch_def by (simp add: handleUpdate_def Let_def)
qed

lemma handleUpdate_error:
  "handleUpdate clk (Some msg) rows (Some m) action
   = (rows, Some m, Some (update_failed (message_or msg ''Failed to update membership'')))"
  by (simp add: handleUpdate_def Let_def)

lemma extend_patch_simps:
  "status (extend_patch clk m action row) = active"
  "end_date (extend_patch clk m action row) = calculateNewEndDate (end_date m) action"
  "start_date (extend_patch clk m action row) = start_date row"
  "id_col (extend_patch clk m action row) = id_col row"
  by (simp_all add: extend_patch_def)

lemmas page_eval = handleUpdate_def update_eq_id_def select_single_def message_or_def
  example_clock_def example_member_def

section \<open>Lemmas about sign-up and the Add Membership page\<close>

lemma handle_new_user_roles:
  assumes "handle_new_user db NEW = Inr db'"
  shows "user_roles db' = user_roles db @
           [\<lparr>user_id = new_id NEW, role = assignRole (length (user_roles db))\<rparr>]"
  using assms
  by (auto simp: handle_new_user_def Let_def split: option.splits if_splits prod.splits)

lemma handle_new_user_first_admin_only:
  assumes "handle_new_user db NEW = Inr db'" "first_admin_only db"
  shows "first_admin_only db'"
proof (cases "user_roles db")
  case Nil
  with handle_new_user_roles[OF assms(1)] show ?thesis
    by (simp add: first_admin_only_def assignRole_def)
next
  case (Cons r rs)
  with assms(2) have "map role (user_roles db) = admin # replicate (length rs) user"
    by (simp add: first_admin_only_def)
  with handle_new_user_roles[OF assms(1)] Cons show ?thesis
    by (simp add: first_admin_only_def assignRole_def replicate_append_same)
qed

lemma on_auth_user_created_first_admin_only:
  "first_admin_only db \<Longrightarrow> first_admin_only (on_auth_user_created db us)"
  by (induction us arbitrary: db)
    (auto split: sum.splits intro: handle_new_user_first_admin_only)









section \<open>The claims\<close>

subsection \<open>Membership numbers\<close>

text \<open>
  The generator of the Add Membership page meets the format for every
  existing-membership count \<open>n\<close>: its result is \<open>MEM\<close> followed by \<open>n + 1\<close> left-padded
  with zeros to six digits, the string of the specification's wording; its digits read
  back as \<open>n + 1\<close>, there are at least six of them, and counts 0 and 41 give
  \<open>MEM000001\<close> and \<open>MEM000042\<close>.
\<close>

theorem generateMembershipNumber_format:
  "generateMembershipNumber (Some n) = nextMembershipNumber_spec n \<and>
   decimal_value (drop 3 (generateMembershipNumber (Some n))) = n + 1 \<and>
   6 \<le> length (drop 3 (generateMembershipNumber (Some n))) \<and>
   generateMembershipNumber (Some 0) = ''MEM000001'' \<and>
   generateMembershipNumber (Some 41) = ''MEM000042''"
proof -
  have eq: "generateMembershipNumber (Some n) = nextMembershipNumber_spec n"
    by (simp add: generateMembershipNumber_Some nextMembershipNumber_spec_def zero_pad_def
        padStart_zero)
  have val: "decimal_value (drop 3 (generateMembershipNumber (Some n))) = n + 1"
    by (simp add: generateMembershipNumber_Some padStart_zero decimal_value_leading_zeros
        decimal_value_String_nat)
  have len: "6 \<le> length (drop 3 (generateMembershipNumber (Some n)))"
    by (simp add: generateMembershipNumber_Some padStart_zero)
  have e0: "generateMembershipNumber (Some 0) = ''MEM000001''"
    by (simp add: mem_eval)
  have e41: "generateMembershipNumber (Some 41) = ''MEM000042''"
    by (simp add: mem_eval)
  from eq val len e0 e41 show ?thesis by blast
qed

text \<open>
  C3. The database function \<open>generate_membership_number\<close> does not meet the format for
  every count: with 999999 memberships stored it returns \<open>MEM100000\<close>, where the format
  and the page's generator give \<open>MEM1000000\<close>; \<open>MEM100000\<close> is the number it returned
  at 99999 memberships, and the column \<open>membership_number\<close> is declared \<open>UNIQUE\<close>.
\<close>

theorem generate_membership_number_truncates:
  "generate_membership_number 999999 = Inr ''MEM100000'' \<and>
   nextMembershipNumber_spec 999999 = ''MEM1000000'' \<and>
   generateMembershipNumber (Some 999999) = ''MEM1000000'' \<and>
   generate_membership_number 99999 = Inr ''MEM100000''"
  by (simp add: mem_eval nextMembershipNumber_spec_def zero_pad_def)

text \<open>
  C9. The page's generator and the database function \<open>generate_membership_number\<close>
  return the same string exactly when \<open>n + 1 \<le> 999999\<close>. Beyond that bound
  \<open>padStart\<close> keeps all digits, while \<open>LPAD\<close> keeps the first six only (and the
  32-bit \<open>counter\<close> overflows above \<open>2147483647\<close>).
\<close>

theorem generators_agree_iff:
  "(generate_membership_number n = Inr (generateMembershipNumber (Some n))) = (n + 1 \<le> 999999) \<and>
   (999999 < n + 1 \<longrightarrow> generateMembershipNumber (Some n) = ''MEM'' @ String_nat (n + 1)) \<and>
   (999999 < n + 1 \<and> n + 1 \<le> 2147483647 \<longrightarrow>
      generate_membership_number n = Inr (''MEM'' @ take 6 (String_nat (n + 1))))"
  using generators_agree_below[of n] generators_diverge_above[of n] by (cases "n + 1 \<le> 999999") auto

text \<open>At counts 41 and 999999.\<close>

theorem generators_agree_iff_witness:
  "generate_membership_number 41 = Inr (generateMembershipNumber (Some 41)) \<and>
   generate_membership_number 999999 \<noteq> Inr (generateMembershipNumber (Some 999999)) \<and>
   generateMembershipNumber (Some 999999) = ''MEM1000000'' \<and>
   generate_membership_number 999999 = Inr ''MEM100000''"
  using generators_agree_iff[of 41] generators_agree_iff[of 999999] by (simp add: String_nat.simps digit_char_def)

subsection \<open>End dates\<close>

text \<open>
  C5. For every date \<open>d\<close>, valid or not, the end dates for six months, one year and
  two years are strictly increasing, for the calculator of the Update Membership page
  and for the one of the Add Membership page (which returns a date for each of the
  three tags). Both are functions of their arguments, hence deterministic.
\<close>

theorem computeEndDate_strictly_monotonic:
  "date_less (calculateNewEndDate d ''6_months'') (calculateNewEndDate d ''1_year'') \<and>
   date_less (calculateNewEndDate d ''1_year'') (calculateNewEndDate d ''2_years'') \<and>
   (\<exists>a b c. calculateEndDate d ''6_months'' = Some a \<and> calculateEndDate d ''1_year'' = Some b \<and>
     calculateEndDate d ''2_years'' = Some c \<and> date_less a b \<and> date_less b c)"
  by (simp add: calculateNewEndDate_def calculateEndDate_def addYears_def addMonths_mono Let_def)

text \<open>
  C6. Six months after 2024-01-31 is 2024-07-31, and six months after 2024-08-31 is
  2025-02-28, the last day of February 2025. In general the result for a valid date is
  a valid date whose day of the month is the original one, cut down to the length of
  the target month.
\<close>

theorem computeEndDate_clamps:
  "calculateNewEndDate \<lparr>year = 2024, month = 1, day = 31\<rparr> ''6_months''
     = \<lparr>year = 2024, month = 7, day = 31\<rparr> \<and>
   calculateNewEndDate \<lparr>year = 2024, month = 8, day = 31\<rparr> ''6_months''
     = \<lparr>year = 2025, month = 2, day = 28\<rparr> \<and>
   days_in_month 2025 2 = 28 \<and>
   (valid_date d \<longrightarrow>
      valid_date (calculateNewEndDate d ext) \<and>
      day (calculateNewEndDate d ext)
        = min (day d) (days_in_month (year (calculateNewEndDate d ext))
                                     (month (calculateNewEndDate d ext))))"
proof (intro conjI impI)
  show "calculateNewEndDate \<lparr>year = 2024, month = 1, day = 31\<rparr> ''6_months''
     = \<lparr>year = 2024, month = 7, day = 31\<rparr>"
    by (simp add: date_eval)
  show "calculateNewEndDate \<lparr>year = 2024, month = 8, day = 31\<rparr> ''6_months''
     = \<lparr>year = 2025, month = 2, day = 28\<rparr>"
    by (simp add: date_eval)
  show "days_in_month 2025 2 = 28"
    by (simp add: date_eval)
next
  assume "valid_date d"
  then show "valid_date (calculateNewEndDate d ext)"
    by (rule calculateNewEndDate_valid)
next
  assume v: "valid_date d"
  have clamp: "day (addMonths d k) = min (day d) (days_in_month (year (addMonths d k)) (month (addMonths d k)))"
    if "k \<noteq> 0" for k
    using addMonths_fields[OF that, of d] by simp
  have same: "day d = min (day d) (days_in_month (year d) (month d))"
    using v by (simp add: valid_date_def)
  show "day (calculateNewEndDate d ext)
        = min (day d) (days_in_month (year (calculateNewEndDate d ext))
                                     (month (calculateNewEndDate d ext)))"
    using clamp[of 6] clamp[of 12] clamp[of 24] same
    by (simp add: calculateNewEndDate_def addYears_def Let_def)
qed

text \<open>At 2024-08-31 and six months.\<close>

theorem computeEndDate_clamps_witness:
  "valid_date \<lparr>year = 2024, month = 8, day = 31\<rparr> \<and>
   valid_date (calculateNewEndDate \<lparr>year = 2024, month = 8, day = 31\<rparr> ''6_months'') \<and>
   day (calculateNewEndDate \<lparr>year = 2024, month = 8, day = 31\<rparr> ''6_months'') = 28"
  using computeEndDate_clamps[of "\<lparr>year = 2024, month = 8, day = 31\<rparr>" "''6_months''"]
  by (simp add: valid_date_def days_in_month_def is_leap_year_def)

text \<open>
  C7, as stated, fails: for the tag \<open>cancel\<close>, which is none of the three durations,
  \<open>calculateNewEndDate\<close> returns the date it was given.
\<close>

theorem unrecognized_tag_counterexample:
  "''cancel'' \<notin> {''6_months'', ''1_year'', ''2_years''} \<and>
   calculateNewEndDate \<lparr>year = 2025, month = 1, day = 1\<rparr> ''cancel''
     = \<lparr>year = 2025, month = 1, day = 1\<rparr>"
  by (simp add: calculateNewEndDate_def)

text \<open>
  C7, amended. For every date and every tag outside \<open>6_months\<close>, \<open>1_year\<close> and
  \<open>2_years\<close>, \<open>calculateNewEndDate\<close> returns the given date unchanged and
  \<open>calculateEndDate\<close> returns no date; neither signals an error. On the Add
  Membership page such a tag does not reach the calculator: the form validation
  rejects it and nothing is inserted.
\<close>

theorem unrecognized_tag_no_error:
  assumes "tag \<notin> {''6_months'', ''1_year'', ''2_years''}"
  shows "calculateNewEndDate d tag = d \<and> calculateEndDate today tag = None \<and>
         handleSubmit clk email_ok fresh_id uid rows (formData\<lparr>form_duration := tag\<rparr>)
           = (rows, validation_failed)"
  using assms
  by (simp add: calculateNewEndDate_def calculateEndDate_def handleSubmit_def
      membershipSchema_def duration_enum_def)

text \<open>At the tag \<open>monthly\<close>.\<close>

theorem unrecognized_tag_no_error_witness:
  "''monthly'' \<notin> {''6_months'', ''1_year'', ''2_years''} \<and>
   calculateNewEndDate \<lparr>year = 2025, month = 1, day = 1\<rparr> ''monthly''
     = \<lparr>year = 2025, month = 1, day = 1\<rparr> \<and>
   calculateEndDate \<lparr>year = 2025, month = 1, day = 1\<rparr> ''monthly'' = None \<and>
   handleSubmit example_clock (\<lambda>a. True) ''9a2e'' None [example_member active]
       (example_form\<lparr>form_duration := ''monthly''\<rparr>)
     = ([example_member active], validation_failed)"
  using unrecognized_tag_no_error[where tag = "''monthly''"
      and d = "\<lparr>year = 2025, month = 1, day = 1\<rparr>"
      and today = "\<lparr>year = 2025, month = 1, day = 1\<rparr>"
      and clk = example_clock and email_ok = "\<lambda>a. True" and fresh_id = "''9a2e''"
      and uid = None and rows = "[example_member active]" and formData = example_form]
  by simp

subsection \<open>Status transitions\<close>

text \<open>
  C1, as stated, fails: extending a cancelled membership by six months succeeds,
  moves its end date from 2020-01-31 to 2020-07-31 and makes it active again.
\<close>

theorem cancelled_extend_counterexample:
  "status (example_member cancelled) = cancelled \<and>
   handleUpdate example_clock None [example_member cancelled] (Some (example_member cancelled))
       ''6_months''
     = ([(example_member cancelled)\<lparr>end_date := \<lparr>year = 2020, month = 7, day = 31\<rparr>,
            status := active, updated_at := ''2024-06-15T10:00:00.000Z''\<rparr>],
        Some ((example_member cancelled)\<lparr>end_date := \<lparr>year = 2020, month = 7, day = 31\<rparr>,
            status := active, updated_at := ''2024-06-15T10:00:00.000Z''\<rparr>),
        Some (membership_extended \<lparr>year = 2020, month = 7, day = 31\<rparr>)) \<and>
   fst (handleUpdate example_clock None [example_member cancelled]
          (Some (example_member cancelled)) ''6_months'') \<noteq> [example_member cancelled]"
  by (simp add: page_eval date_eval)

text \<open>
  C1, amended. For every membership whose status is \<open>cancelled\<close> and that is the only
  row with its id, an extension (any action other than \<open>cancel\<close>) that the database
  accepts succeeds: the row and the page's copy get status \<open>active\<close>, the end date
  \<open>calculateNewEndDate(end_date, action)\<close> and a new \<open>updated_at\<close>, and nothing else
  changes. When the database rejects the update, nothing is written and its error is
  shown.
\<close>

theorem cancelled_extend_reactivates:
  assumes "status m = cancelled"
    and "action \<noteq> ''cancel''"
    and "filter (\<lambda>row. id_col row = id_col m) rows = [m]"
  shows "(\<exists>rows' m'.
            handleUpdate clk None rows (Some m) action
              = (rows', Some m',
                 Some (membership_extended (calculateNewEndDate (end_date m) action))) \<and>
            m' \<in> set rows' \<and>
            m' = m\<lparr>end_date := calculateNewEndDate (end_date m) action, status := active,
                    updated_at := browser_now clk\<rparr>) \<and>
         handleUpdate clk (Some msg) rows (Some m) action
           = (rows, Some m,
              Some (update_failed (message_or msg ''Failed to update membership'')))"
proof (rule conjI)
  from assms(3) have "m \<in> set (filter (\<lambda>row. id_col row = id_col m) rows)" by simp
  then have "m \<in> set rows" by simp
  then have "extend_patch clk m action m
             \<in> set (update_eq_id (extend_patch clk m action) (id_col m) rows)"
    by (force simp: update_eq_id_def)
  moreover have "extend_patch clk m action m
      = m\<lparr>end_date := calculateNewEndDate (end_date m) action, status := active,
           updated_at := browser_now clk\<rparr>"
    by (simp add: extend_patch_def)
  ultimately show "\<exists>rows' m'.
            handleUpdate clk None rows (Some m) action
              = (rows', Some m',
                 Some (membership_extended (calculateNewEndDate (end_date m) action))) \<and>
            m' \<in> set rows' \<and>
            m' = m\<lparr>end_date := calculateNewEndDate (end_date m) action, status := active,
                    updated_at := browser_now clk\<rparr>"
    using handleUpdate_extend[OF assms(2,3), of clk] by simp
  show "handleUpdate clk (Some msg) rows (Some m) action
           = (rows, Some m,
              Some (update_failed (message_or msg ''Failed to update membership'')))"
    by (rule handleUpdate_error)
qed

text \<open>At the cancelled sample membership and one year.\<close>

theorem cancelled_extend_reactivates_witness:
  "status (example_member cancelled) = cancelled \<and> ''1_year'' \<noteq> ''cancel'' \<and>
   filter (\<lambda>row. id_col row = id_col (example_member cancelled)) [example_member cancelled]
     = [example_member cancelled] \<and>
   (\<exists>rows' m'.
      handleUpdate example_clock None [example_member cancelled]
          (Some (example_member cancelled)) ''1_year''
        = (rows', Some m', Some (membership_extended \<lparr>year = 2021, month = 1, day = 31\<rparr>)) \<and>
      status m' = active) \<and>
   handleUpdate example_clock (Some ''permission denied'') [example_member cancelled]
       (Some (example_member cancelled)) ''1_year''
     = ([example_member cancelled], Some (example_member cancelled),
        Some (update_failed ''permission denied''))"
proof -
  have h1: "status (example_member cancelled) = cancelled"
    by (simp add: example_member_def)
  have h2: "''1_year'' \<noteq> ''cancel''"
    by simp
  have h3: "filter (\<lambda>row. id_col row = id_col (example_member cancelled))
              [example_member cancelled] = [example_member cancelled]"
    by simp
  have e: "calculateNewEndDate (end_date (example_member cancelled)) ''1_year''
           = \<lparr>year = 2021, month = 1, day = 31\<rparr>"
    by (simp add: example_member_def date_eval)
  from cancelled_extend_reactivates[OF h1 h2 h3, of example_clock "''permission denied''"] h1 h3
  show ?thesis
    unfolding e by (auto simp: message_or_def)
qed

text \<open>
  C2, as stated, fails: on 2024-06-15 the renewal by one year of a membership that ran
  out on 2020-01-31 ends on 2021-01-31, one year after the stored end date, not on
  2025-06-15, one year after today.
\<close>

theorem expired_extend_counterexample:
  "status (example_member expired) = expired \<and>
   browser_today example_clock = \<lparr>year = 2024, month = 6, day = 15\<rparr> \<and>
   fst (snd (handleUpdate example_clock None [example_member expired]
               (Some (example_member expired)) ''1_year''))
     = Some ((example_member expired)\<lparr>end_date := \<lparr>year = 2021, month = 1, day = 31\<rparr>,
            status := active, updated_at := ''2024-06-15T10:00:00.000Z''\<rparr>) \<and>
   calculateNewEndDate (browser_today example_clock) ''1_year''
     = \<lparr>year = 2025, month = 6, day = 15\<rparr> \<and>
   map end_date (fst (handleUpdate example_clock None [example_member expired]
                        (Some (example_member expired)) ''1_year''))
     \<noteq> [calculateNewEndDate (browser_today example_clock) ''1_year'']"
  by (simp add: page_eval date_eval)

text \<open>
  C2, amended. For every membership whose status is \<open>expired\<close> and that is the only
  row with its id, an extension that the database accepts succeeds, yields status
  \<open>active\<close> and computes the new end date from the membership's stored end date,
  whatever the current date is; the start date stays.
\<close>

theorem expired_extend_from_stored_end_date:
  assumes "status m = expired"
    and "action \<noteq> ''cancel''"
    and "filter (\<lambda>row. id_col row = id_col m) rows = [m]"
  shows "\<exists>rows' m'.
           handleUpdate clk None rows (Some m) action
             = (rows', Some m',
                Some (membership_extended (calculateNewEndDate (end_date m) action))) \<and>
           m' \<in> set rows' \<and> status m' = active \<and>
           end_date m' = calculateNewEndDate (end_date m) action \<and>
           start_date m' = start_date m"
proof -
  from assms(3) have "m \<in> set (filter (\<lambda>row. id_col row = id_col m) rows)" by simp
  then have "m \<in> set rows" by simp
  then have "extend_patch clk m action m
             \<in> set (update_eq_id (extend_patch clk m action) (id_col m) rows)"
    by (force simp: update_eq_id_def)
  then show ?thesis
    using handleUpdate_extend[OF assms(2,3), of clk] by (simp add: extend_patch_simps)
qed

text \<open>At the expired sample membership and one year.\<close>

theorem expired_extend_from_stored_end_date_witness:
  "status (example_member expired) = expired \<and> ''1_year'' \<noteq> ''cancel'' \<and>
   filter (\<lambda>row. id_col row = id_col (example_member expired)) [example_member expired]
     = [example_member expired] \<and>
   (\<exists>rows' m'.
      handleUpdate example_clock None [example_member expired]
          (Some (example_member expired)) ''1_year''
        = (rows', Some m', Some (membership_extended \<lparr>year = 2021, month = 1, day = 31\<rparr>)) \<and>
      status m' = active \<and> end_date m' = \<lparr>year = 2021, month = 1, day = 31\<rparr>)"
proof -
  have h1: "status (example_member expired) = expired"
    by (simp add: example_member_def)
  have h2: "''1_year'' \<noteq> ''cancel''"
    by simp
  have h3: "filter (\<lambda>row. id_col row = id_col (example_member expired))
              [example_member expired] = [example_member expired]"
    by simp
  have e: "calculateNewEndDate (end_date (example_member expired)) ''1_year''
           = \<lparr>year = 2021, month = 1, day = 31\<rparr>"
    by (simp add: example_member_def date_eval)
  from expired_extend_from_stored_end_date[OF h1 h2 h3, of example_clock] h1 h3 show ?thesis
    unfolding e by auto
qed

text \<open>
  C10. When the action is not \<open>cancel\<close> and the database accepts the update, every
  row with the membership's id has status \<open>active\<close> afterwards, whatever the status
  was before; when the membership is the only row with its id, the page's refreshed
  copy is that row and is \<open>active\<close>.
\<close>

theorem extend_writes_active:
  assumes "action \<noteq> ''cancel''"
  shows "(\<forall>row \<in> set (fst (handleUpdate clk None rows (Some m) action)).
            id_col row = id_col m \<longrightarrow> status row = active) \<and>
         (filter (\<lambda>row. id_col row = id_col m) rows = [m] \<longrightarrow>
            (\<exists>m'. fst (snd (handleUpdate clk None rows (Some m) action)) = Some m' \<and>
                   m' \<in> set (fst (handleUpdate clk None rows (Some m) action)) \<and>
                   status m' = active))"
proof (intro conjI impI)
  show "\<forall>row \<in> set (fst (handleUpdate clk None rows (Some m) action)).
            id_col row = id_col m \<longrightarrow> status row = active"
    using assms
    by (auto simp: handleUpdate_extend_rows update_eq_id_def extend_patch_simps)
next
  assume one: "filter (\<lambda>row. id_col row = id_col m) rows = [m]"
  then have "m \<in> set (filter (\<lambda>row. id_col row = id_col m) rows)" by simp
  then have "m \<in> set rows" by simp
  then have "extend_patch clk m action m \<in> set (update_eq_id (extend_patch clk m action) (id_col m) rows)"
    by (force simp: update_eq_id_def)
  then show "\<exists>m'. fst (snd (handleUpdate clk None rows (Some m) action)) = Some m' \<and>
                   m' \<in> set (fst (handleUpdate clk None rows (Some m) action)) \<and>
                   status m' = active"
    by (simp add: handleUpdate_extend[OF assms one] extend_patch_simps)
qed

text \<open>At the cancelled sample membership and two years.\<close>

theorem extend_writes_active_witness:
  "''2_years'' \<noteq> ''cancel'' \<and>
   filter (\<lambda>row. id_col row = id_col (example_member cancelled)) [example_member cancelled]
     = [example_member cancelled] \<and>
   map status (fst (handleUpdate example_clock None [example_member cancelled]
                      (Some (example_member cancelled)) ''2_years'')) = [active] \<and>
   map_option status (fst (snd (handleUpdate example_clock None [example_member cancelled]
                      (Some (example_member cancelled)) ''2_years''))) = Some active"
  using extend_writes_active[of "''2_years''" example_clock "[example_member cancelled]"
      "example_member cancelled"]
  by (simp add: page_eval date_eval)

subsection \<open>Roles\<close>

text \<open>
  C4. The role is a function of the number of role rows already stored: \<open>admin\<close> for
  a count of 0 and \<open>user\<close> for every count from 1 on; a sign-up that the trigger
  completes appends exactly the role row with that role for the new identity. So after
  any sequence of sign-ups into an empty database the first identity registered is the
  only \<open>admin\<close>.
\<close>

theorem assignRole_first_admin:
  "assignRole 0 = admin \<and> (\<forall>k\<ge>1. assignRole k = user) \<and>
   (handle_new_user db NEW = Inr db' \<longrightarrow>
      user_roles db' = user_roles db @
        [\<lparr>user_id = new_id NEW, role = assignRole (length (user_roles db))\<rparr>]) \<and>
   first_admin_only (on_auth_user_created empty_database us)"
proof -
  have "first_admin_only empty_database"
    by (simp add: first_admin_only_def empty_database_def)
  then have "first_admin_only (on_auth_user_created empty_database us)"
    by (rule on_auth_user_created_first_admin_only)
  then show ?thesis
    using handle_new_user_roles[of db NEW db'] by (simp add: assignRole_def)
qed

text \<open>
  At the first sign-up into an empty database, and at four sign-ups of which the third
  repeats an id and is aborted.
\<close>

theorem assignRole_first_admin_witness:
  "assignRole 0 = admin \<and> assignRole 1 = user \<and>
   handle_new_user empty_database (example_user ''u1'')
     = Inr \<lparr>profiles = [\<lparr>profile_id = ''u1'', full_name = ''u1@example.org'',
                          profile_email = ''u1@example.org''\<rparr>],
            user_roles = [\<lparr>user_id = ''u1'', role = admin\<rparr>]\<rparr> \<and>
   user_roles (on_auth_user_created empty_database
                 [example_user ''u1'', example_user ''u2'', example_user ''u1'', example_user ''u3''])
     = [\<lparr>user_id = ''u1'', role = admin\<rparr>, \<lparr>user_id = ''u2'', role = user\<rparr>,
        \<lparr>user_id = ''u3'', role = user\<rparr>] \<and>
   first_admin_only (on_auth_user_created empty_database
                 [example_user ''u1'', example_user ''u2'', example_user ''u1'', example_user ''u3''])"
proof -
  have run: "handle_new_user empty_database (example_user ''u1'')
     = Inr \<lparr>profiles = [\<lparr>profile_id = ''u1'', full_name = ''u1@example.org'',
                          profile_email = ''u1@example.org''\<rparr>],
            user_roles = [\<lparr>user_id = ''u1'', role = admin\<rparr>]\<rparr>"
    by (simp add: handle_new_user_def empty_database_def example_user_def COALESCE_def
        assignRole_def Let_def)
  have runs: "user_roles (on_auth_user_created empty_database
                 [example_user ''u1'', example_user ''u2'', example_user ''u1'', example_user ''u3''])
     = [\<lparr>user_id = ''u1'', role = admin\<rparr>, \<lparr>user_id = ''u2'', role = user\<rparr>,
        \<lparr>user_id = ''u3'', role = user\<rparr>]"
    by (simp add: handle_new_user_def empty_database_def example_user_def COALESCE_def
        assignRole_def Let_def)
  from assignRole_first_admin[of empty_database "example_user ''u1''" _
      "[example_user ''u1'', example_user ''u2'', example_user ''u1'', example_user ''u3'']"]
    run runs
  show ?thesis
    by (simp add: empty_database_def example_user_def)
qed

subsection \<open>The date invariant\<close>




end
